theory Spec2Isabelle
  imports Main
begin

section \<open>JavaScript values\<close>

text \<open>
  The provider works on untyped data (\<open>any\<close>): the parsed body of an HTTP response.
  A value is one of the JSON shapes, or \<open>undefined\<close>, which is what reading a missing
  property gives. An object is the list of its own properties in insertion order, each key
  once.

  A string is kept as the bytes of its UTF-8 form (a lone surrogate as the three bytes of its
  code point), so every JavaScript string has a representation, and a comparison of strings
  is a comparison of byte lists. Where the program counts or visits UTF-16 code units or code
  points, the model counts and groups the bytes accordingly (see \<open>unit_count\<close> and
  \<open>code_points\<close> below).

  The program never computes with a number it receives: it tests it for truthiness and prints
  it in template literals. A number is therefore given by whether it is zero and by the text
  \<open>`${n}`\<close> gives for it.
\<close>

datatype number = Number bool string

fun is_zero :: "number \<Rightarrow> bool" where
  "is_zero (Number z t) = z"

fun number_text :: "number \<Rightarrow> string" where
  "number_text (Number z t) = t"

datatype json =
    JUndefined
  | JNull
  | JBool bool
  | JNum number
  | JStr string
  | JArr "json list"
  | JObj "(string \<times> json) list"

text \<open>
  What the code throws. \<open>Error m\<close> is \<open>new Error(m)\<close>; \<open>TypeError\<close> is what the
  runtime throws on reading a property of \<open>null\<close> or \<open>undefined\<close>, calling something
  that is not a function, iterating something that is not iterable, or printing an object
  that cannot be printed; \<open>Rejected m\<close> is an \<open>Error\<close> raised by a collaborator (the
  HTTP transport, the JSON parser, the catalog connection).
\<close>

datatype error = Error string | TypeError | Rejected string

text \<open>JavaScript truthiness: \<open>!v\<close> is \<open>\<not> truthy v\<close>.\<close>

fun truthy :: "json \<Rightarrow> bool" where
  "truthy JUndefined = False"
| "truthy JNull = False"
| "truthy (JBool b) = b"
| "truthy (JNum n) = (\<not> is_zero n)"
| "truthy (JStr s) = (s \<noteq> [])"
| "truthy (JArr xs) = True"
| "truthy (JObj kvs) = True"

text \<open>\<open>a || b\<close> on values (the right operand of the source is always free of effects
  where this is used).\<close>

definition or_else :: "json \<Rightarrow> json \<Rightarrow> json" where
  "or_else a b = (if truthy a then a else b)"

text \<open>
  \<open>v.k\<close> on a value that is neither \<open>null\<close> nor \<open>undefined\<close>. The property names
  the program reads (\<open>attributes\<close>, \<open>name\<close>, \<open>owner\<close>, \<open>contacts\<close>, \<open>type\<close>,
  \<open>contact\<close>, \<open>repos\<close>, \<open>provider\<close>, \<open>url\<close>, \<open>kind\<close>, \<open>data\<close>, \<open>id\<close>,
  \<open>links\<close>, \<open>next\<close>, ...) are not defined on the prototypes of strings, numbers,
  booleans and arrays, so there the read gives \<open>undefined\<close>.
\<close>

fun get :: "json \<Rightarrow> string \<Rightarrow> json" where
  "get (JObj kvs) k = (case map_of kvs k of Some v \<Rightarrow> v | None \<Rightarrow> JUndefined)"
| "get v k = JUndefined"

text \<open>\<open>v.k\<close> on any value: throws on \<open>null\<close> and \<open>undefined\<close>.\<close>

fun read_prop :: "json \<Rightarrow> string \<Rightarrow> error + json" where
  "read_prop JUndefined k = Inl TypeError"
| "read_prop JNull k = Inl TypeError"
| "read_prop v k = Inr (get v k)"

subsection \<open>Strings\<close>

definition is_digit :: "char \<Rightarrow> bool" where
  "is_digit c = (48 \<le> (of_char c :: nat) \<and> (of_char c :: nat) \<le> 57)"

definition is_lower :: "char \<Rightarrow> bool" where
  "is_lower c = (97 \<le> (of_char c :: nat) \<and> (of_char c :: nat) \<le> 122)"

definition is_upper :: "char \<Rightarrow> bool" where
  "is_upper c = (65 \<le> (of_char c :: nat) \<and> (of_char c :: nat) \<le> 90)"

definition is_ascii :: "char \<Rightarrow> bool" where
  "is_ascii c = ((of_char c :: nat) < 128)"

text \<open>
  The bytes of a UTF-8 string and the UTF-16 code units they stand for: an ASCII byte is one
  code unit; a continuation byte (\<open>10xxxxxx\<close>) belongs to the sequence its lead byte opened;
  the lead byte of a sequence of two or three bytes opens one code unit, the lead byte of a
  sequence of four bytes opens a surrogate pair.
\<close>

definition is_continuation :: "char \<Rightarrow> bool" where
  "is_continuation c = (128 \<le> (of_char c :: nat) \<and> (of_char c :: nat) < 192)"

definition unit_count :: "char \<Rightarrow> nat" where
  "unit_count c =
     (let n = of_char c :: nat in
      if n < 128 then 1 else if n < 192 then 0 else if n < 240 then 1 else 2)"

text \<open>\<open>s.length\<close>: the number of UTF-16 code units.\<close>

definition utf16_length :: "string \<Rightarrow> nat" where
  "utf16_length s = sum_list (map unit_count s)"

text \<open>The code points of a string, which is what iterating a string visits: a byte that
  opens a sequence, with the continuation bytes after it.\<close>

function code_points :: "string \<Rightarrow> string list" where
  "code_points [] = []"
| "code_points (c # cs) =
     (c # takeWhile is_continuation cs) # code_points (dropWhile is_continuation cs)"
  by pat_completeness auto
termination
  by (relation "measure length") (auto simp add: length_dropWhile_le less_Suc_eq_le)

text \<open>
  The parts of the JavaScript engine that the program calls and whose tables lie outside
  this repository: the Unicode case mappings and the reading of a long run of digits as a
  floating-point number. The model decides what it can decide itself (see
  \<open>toLowerCase\<close>, \<open>toLocaleLowerCase\<close> and \<open>parseInt\<close> below) and asks the engine for
  the rest.
\<close>

record runtime =
  unicode_lower :: "string \<Rightarrow> string"
  locale_lower :: "string \<Rightarrow> string"
  float_parse :: "string \<Rightarrow> number"

definition ascii_lower :: "char \<Rightarrow> char" where
  "ascii_lower c = (if is_upper c then char_of ((of_char c :: nat) + 32) else c)"

text \<open>\<open>s.toLowerCase()\<close>: on a string of ASCII characters the letters A to Z move to a to
  z and nothing else changes; any other string goes through the engine's Unicode tables
  (which may change its length).\<close>

definition toLowerCase :: "runtime \<Rightarrow> string \<Rightarrow> string" where
  "toLowerCase js s = (if list_all is_ascii s then map ascii_lower s else unicode_lower js s)"

text \<open>\<open>s.toLocaleLowerCase()\<close>: the mapping of the host's locale. A string of ASCII
  characters without capitals is unchanged in every locale; any other string goes through
  the engine.\<close>

definition toLocaleLowerCase :: "runtime \<Rightarrow> string \<Rightarrow> string" where
  "toLocaleLowerCase js s =
     (if list_all (\<lambda>c. is_ascii c \<and> \<not> is_upper c) s then s else locale_lower js s)"

text \<open>\<open>s.split(sep)\<close> for a one-character separator: never empty, \<open>"".split(":")\<close> is
  \<open>[""]\<close>.\<close>

fun split :: "char \<Rightarrow> string \<Rightarrow> string list" where
  "split sep [] = [[]]"
| "split sep (c # cs) =
     (if c = sep then [] # split sep cs
      else (case split sep cs of [] \<Rightarrow> [[c]] | p # ps \<Rightarrow> (c # p) # ps))"

text \<open>\<open>s.startsWith(p)\<close>.\<close>

fun startsWith :: "string \<Rightarrow> string \<Rightarrow> bool" where
  "startsWith s [] = True"
| "startsWith [] (p # ps) = False"
| "startsWith (c # cs) (p # ps) = (c = p \<and> startsWith cs ps)"

text \<open>\<open>xs.findIndex(p)\<close>, with \<open>None\<close> for \<open>-1\<close>.\<close>

fun findIndex :: "('a \<Rightarrow> bool) \<Rightarrow> 'a list \<Rightarrow> nat option" where
  "findIndex p [] = None"
| "findIndex p (x # xs) =
     (if p x then Some 0 else (case findIndex p xs of None \<Rightarrow> None | Some i \<Rightarrow> Some (Suc i)))"

text \<open>\<open>xs[i]\<close> on an array of strings: \<open>undefined\<close> out of range.\<close>

definition at_index :: "string list \<Rightarrow> nat \<Rightarrow> string option" where
  "at_index xs i = (if i < length xs then Some (xs ! i) else None)"

text \<open>Decimal digits of a natural number, and the number that a run of decimal digits
  writes.\<close>

definition digit_char :: "nat \<Rightarrow> char" where
  "digit_char d = char_of (48 + d)"

fun show_nat :: "nat \<Rightarrow> string" where
  "show_nat n = (if n < 10 then [digit_char n] else show_nat (n div 10) @ [digit_char (n mod 10)])"

declare show_nat.simps [simp del]

definition decimal_value :: "string \<Rightarrow> nat" where
  "decimal_value ds = foldl (\<lambda>acc c. 10 * acc + (of_char c - 48)) 0 ds"

text \<open>A natural number below \<open>10^21\<close> as a number: it prints as its decimal digits.
  The program builds numbers this way from lengths and from the literals 0 and 100.\<close>

definition number_of_nat :: "nat \<Rightarrow> number" where
  "number_of_nat n = Number (n = 0) (show_nat n)"

text \<open>
  \<open>parseInt(ds, 10)\<close>, called on the run of digits the regular expression captured. Below
  \<open>2^53\<close> the result is the number the digits write, exactly. From there on it is the
  engine's floating-point reading of them.
\<close>

definition parseInt :: "runtime \<Rightarrow> string \<Rightarrow> number" where
  "parseInt js ds =
     (if ds \<noteq> [] \<and> list_all is_digit ds \<and> int (decimal_value ds) < 2 ^ 53
      then number_of_nat (decimal_value ds) else float_parse js ds)"

text \<open>\<open>for (const x of v)\<close> and \<open>...v\<close>: arrays and strings are iterable, nothing else
  is. A string gives its code points, each as a string.\<close>

fun iterate :: "json \<Rightarrow> error + json list" where
  "iterate (JArr xs) = Inr xs"
| "iterate (JStr s) = Inr (map JStr (code_points s))"
| "iterate v = Inl TypeError"

text \<open>
  A value inside a template literal (\<open>`${v}`\<close>): strings as they are; an array as its
  elements joined with commas (\<open>null\<close> and \<open>undefined\<close> elements as the empty string); a
  plain object as \<open>[object Object]\<close>, unless it has a property \<open>toString\<close> of its own:
  no value of a parsed body is a function, so the conversion finds nothing to call and throws
  a \<open>TypeError\<close>.
\<close>

fun join :: "string \<Rightarrow> string list \<Rightarrow> string" where
  "join sep [] = []"
| "join sep [x] = x"
| "join sep (x # y # zs) = x @ sep @ join sep (y # zs)"

fun toString :: "json \<Rightarrow> error + string"
  and items_text :: "json list \<Rightarrow> error + string list" where
  "toString JUndefined = Inr ''undefined''"
| "toString JNull = Inr ''null''"
| "toString (JBool b) = Inr (if b then ''true'' else ''false'')"
| "toString (JNum n) = Inr (number_text n)"
| "toString (JStr s) = Inr s"
| "toString (JArr xs) =
     (case items_text xs of Inl e \<Rightarrow> Inl e | Inr ts \<Rightarrow> Inr (join '','' ts))"
| "toString (JObj kvs) =
     (case map_of kvs ''toString'' of
        None \<Rightarrow> Inr ''[object Object]''
      | Some v \<Rightarrow> Inl TypeError)"
| "items_text [] = Inr []"
| "items_text (x # xs) =
     (case (if x = JNull \<or> x = JUndefined then Inr [] else toString x) of
        Inl e \<Rightarrow> Inl e
      | Inr t \<Rightarrow> (case items_text xs of Inl e \<Rightarrow> Inl e | Inr ts \<Rightarrow> Inr (t # ts)))"

section \<open>RelationshipTranslator: extractRelationships, parseDdEntityRef, toEntityRef\<close>

record entity_ref =
  kind :: string
  namespace :: string
  name :: string

text \<open>The table \<open>ddToBackstageRelationType\<close>.\<close>

definition ddToBackstageRelationType :: "string \<rightharpoonup> string" where
  "ddToBackstageRelationType = map_of
     [(''RelationTypeDependsOn'', ''dependsOn''),
      (''RelationTypeDependencyOf'', ''dependencyOf''),
      (''RelationTypeOwnedBy'', ''ownedBy''),
      (''RelationTypeOwnerOf'', ''ownerOf''),
      (''RelationTypePartsOf'', ''partOf''),
      (''RelationTypeHasPart'', ''hasPart'')]"

text \<open>
  \<open>parseDdEntityRef\<close>: the index of the first part that starts with \<open>RelationType\<close>; no
  result when there is none, when it is the first part or when it is the last part; then the
  three parts after it, each of which has to exist and be non-empty.
\<close>

definition parseDdEntityRef :: "string \<Rightarrow> entity_ref option" where
  "parseDdEntityRef ident =
     (let parts = split CHR '':'' ident in
      case findIndex (\<lambda>p. startsWith p ''RelationType'') parts of
        None \<Rightarrow> None
      | Some relTypeIdx \<Rightarrow>
          if relTypeIdx = 0 \<or> relTypeIdx = length parts - 1 then None
          else
            (case (at_index parts (relTypeIdx + 1), at_index parts (relTypeIdx + 2),
                   at_index parts (relTypeIdx + 3)) of
               (Some k, Some ns, Some n) \<Rightarrow>
                 if k = [] \<or> ns = [] \<or> n = [] then None
                 else Some \<lparr>kind = k, namespace = ns, name = n\<rparr>
             | _ \<Rightarrow> None))"

definition toEntityRef :: "runtime \<Rightarrow> entity_ref \<Rightarrow> string" where
  "toEntityRef js r = toLocaleLowerCase js (kind r) @ '':'' @ namespace r @ ''/'' @ name r"

text \<open>
  One pass of the loop body of \<open>extractRelationships\<close> on the element \<open>rel\<close>:
  \<open>rel.id.split(":")\<close> throws unless \<open>rel.id\<close> is a string; \<open>Inr None\<close> is
  \<open>continue\<close>; \<open>Inr (Some r)\<close> is the relation pushed.
\<close>

definition relation_of :: "runtime \<Rightarrow> json \<Rightarrow> error + json option" where
  "relation_of js rel =
     (case read_prop rel ''id'' of
        Inl e \<Rightarrow> Inl e
      | Inr (JStr ident) \<Rightarrow>
          (let idParts = split CHR '':'' ident in
           case find (\<lambda>p. startsWith p ''RelationType'') idParts of
             None \<Rightarrow> Inr None
           | Some relTypePart \<Rightarrow>
               if relTypePart = [] then Inr None
               else
                 (case ddToBackstageRelationType relTypePart of
                    None \<Rightarrow> Inr None
                  | Some backstageType \<Rightarrow>
                      (case parseDdEntityRef ident of
                         None \<Rightarrow> Inr None
                       | Some target \<Rightarrow>
                           Inr (Some (JObj [(''type'', JStr backstageType),
                                            (''target'', JStr (toEntityRef js target))])))))
      | Inr _ \<Rightarrow> Inl TypeError)"

text \<open>The \<open>for ... of\<close> loop: relations are pushed in order; a throw ends the loop.\<close>

fun relations_loop :: "runtime \<Rightarrow> json list \<Rightarrow> json list \<Rightarrow> error + json list" where
  "relations_loop js [] relations = Inr relations"
| "relations_loop js (rel # rels) relations =
     (case relation_of js rel of
        Inl e \<Rightarrow> Inl e
      | Inr None \<Rightarrow> relations_loop js rels relations
      | Inr (Some r) \<Rightarrow> relations_loop js rels (relations @ [r]))"

text \<open>\<open>extractRelationships(service)\<close>, called on a \<open>service\<close> that is not \<open>null\<close>.\<close>

definition extractRelationships :: "runtime \<Rightarrow> json \<Rightarrow> error + json list" where
  "extractRelationships js service =
     (if \<not> truthy (get service ''relationships'')
         \<or> \<not> truthy (get (get service ''relationships'') ''relatedEntities'')
      then Inr []
      else
        (case iterate (get (get (get service ''relationships'') ''relatedEntities'') ''data'') of
           Inl e \<Rightarrow> Inl e
         | Inr rels \<Rightarrow> relations_loop js rels []))"

section \<open>EntityMapper: createServiceEntity\<close>

record config =
  apiKey :: string
  applicationKey :: string
  site :: "string option"

text \<open>\<open>${this.config.site}\<close>: the field is optional, and an absent one prints as
  \<open>undefined\<close>.\<close>

definition site_text :: "config \<Rightarrow> string" where
  "site_text cfg = (case site cfg of None \<Rightarrow> ''undefined'' | Some s \<Rightarrow> s)"

datatype level = LDebug | LInfo | LWarn | LError

text \<open>What the code writes: a call of the logger (level and message; the error passed as
  second argument is left out) or \<open>console.log\<close> of a value. \<open>LoggerOf l m e\<close> is a call
  of the logger whose message is \<open>m\<close> followed by \<open>e.message\<close>, the text of which is the
  engine's for a \<open>TypeError\<close>.\<close>

datatype log_entry = Logger level string | LoggerOf level string error | Console json

text \<open>
  \<open>.replace(/[^a-z0-9-]/g, "-")\<close>: every code unit outside the class becomes one dash.
  An ASCII byte is one code unit, kept when it is in the class; the bytes of any other
  character give as many dashes as the character has code units.
\<close>

definition allowed_char :: "char \<Rightarrow> bool" where
  "allowed_char c = (is_lower c \<or> is_digit c \<or> c = CHR ''-'')"

definition replace_unit :: "char \<Rightarrow> string" where
  "replace_unit c =
     (if is_ascii c then [if allowed_char c then c else CHR ''-'']
      else replicate (unit_count c) CHR ''-'')"

definition replace_disallowed :: "string \<Rightarrow> string" where
  "replace_disallowed s = concat (map replace_unit s)"

text \<open>The name of the entity, \<open>raw.toLowerCase().replace(...)\<close>, as a function of
  the raw name.\<close>

definition clean_name :: "runtime \<Rightarrow> string \<Rightarrow> string" where
  "clean_name js raw = replace_disallowed (toLowerCase js raw)"

text \<open>\<open>xs.find(x => x.k === "v")\<close>: the callback throws on a \<open>null\<close> element.\<close>

fun find_where :: "string \<Rightarrow> string \<Rightarrow> json list \<Rightarrow> error + json option" where
  "find_where k v [] = Inr None"
| "find_where k v (x # xs) =
     (case read_prop x k of
        Inl e \<Rightarrow> Inl e
      | Inr p \<Rightarrow> if p = JStr v then Inr (Some x) else find_where k v xs)"

text \<open>\<open>attributes.contacts?.find(contact => contact.type === t)?.contact\<close>: \<open>?.\<close> only
  guards \<open>null\<close> and \<open>undefined\<close>; any other value that is not an array has no
  \<open>find\<close>.\<close>

definition contact_of_type :: "string \<Rightarrow> json \<Rightarrow> error + json" where
  "contact_of_type t attributes =
     (case get attributes ''contacts'' of
        JUndefined \<Rightarrow> Inr JUndefined
      | JNull \<Rightarrow> Inr JUndefined
      | JArr contacts \<Rightarrow>
          (case find_where ''type'' t contacts of
             Inl e \<Rightarrow> Inl e
           | Inr None \<Rightarrow> Inr JUndefined
           | Inr (Some contact) \<Rightarrow> Inr (get contact ''contact''))
      | _ \<Rightarrow> Inl TypeError)"

text \<open>The chain \<open>attributes.owner || squad contact || team contact || "unknown"\<close>, evaluated
  left to right and stopping at the first truthy operand.\<close>

definition resolve_owner :: "json \<Rightarrow> error + json" where
  "resolve_owner attributes =
     (if truthy (get attributes ''owner'') then Inr (get attributes ''owner'')
      else
        (case contact_of_type ''squad'' attributes of
           Inl e \<Rightarrow> Inl e
         | Inr squad \<Rightarrow>
             if truthy squad then Inr squad
             else
               (case contact_of_type ''team'' attributes of
                  Inl e \<Rightarrow> Inl e
                | Inr team \<Rightarrow> if truthy team then Inr team else Inr (JStr ''unknown''))))"

text \<open>\<open>repos.find(repo => repo.provider === "github") || repos[0]\<close> with
  \<open>repos = attributes.repos || []\<close>.\<close>

definition primary_repo :: "json \<Rightarrow> error + json" where
  "primary_repo attributes =
     (case or_else (get attributes ''repos'') (JArr []) of
        JArr repos \<Rightarrow>
          (case find_where ''provider'' ''github'' repos of
             Inl e \<Rightarrow> Inl e
           | Inr (Some repo) \<Rightarrow> Inr repo
           | Inr None \<Rightarrow> Inr (case repos of [] \<Rightarrow> JUndefined | r # _ \<Rightarrow> r))
      | _ \<Rightarrow> Inl TypeError)"

text \<open>The \<open>tier-...\<close> tag, present when there is a tier; printing the tier can throw.\<close>

definition tier_tag :: "json \<Rightarrow> error + json list" where
  "tier_tag attributes =
     (if truthy (get attributes ''tier'')
      then (case toString (get attributes ''tier'') of
              Inl e \<Rightarrow> Inl e
            | Inr t \<Rightarrow> Inr [JStr (''tier-'' @ t)])
      else Inr [])"

text \<open>The annotation \<open>backstage.io/source-location\<close>, present when the primary
  repository has a URL; printing the URL can throw.\<close>

definition source_location :: "json \<Rightarrow> error + (string \<times> json) list" where
  "source_location primaryRepo =
     (if truthy primaryRepo \<and> truthy (get primaryRepo ''url'')
      then (case toString (get primaryRepo ''url'') of
              Inl e \<Rightarrow> Inl e
            | Inr t \<Rightarrow> Inr [(''backstage.io/source-location'', JStr (''url:'' @ t @ ''/''))])
      else Inr [])"

text \<open>
  The entity object. \<open>raw\<close> is \<open>attributes.name\<close>, a string; \<open>cleaned\<close> is the local
  \<open>name\<close>; \<open>tags\<close> are the elements spread from \<open>attributes.tags || []\<close>; \<open>tier\<close>
  and \<open>location\<close> are the two parts above. The assignments to \<open>annotations\<close> and the push
  to \<open>links\<close> that follow the literal in the source add new keys at the end, so they are
  written as the tails of the two lists.
\<close>

definition build_entity ::
  "config \<Rightarrow> json \<Rightarrow> string \<Rightarrow> string \<Rightarrow> json \<Rightarrow> json \<Rightarrow> json list \<Rightarrow> json list
     \<Rightarrow> (string \<times> json) list \<Rightarrow> json" where
  "build_entity cfg attributes raw cleaned owner primaryRepo tags tier location =
     JObj
      [(''apiVersion'', JStr ''backstage.io/v1alpha1''),
       (''kind'', JStr (if get attributes ''kind'' = JStr ''system'' then ''System'' else ''Component'')),
       (''metadata'', JObj
          [(''name'', JStr cleaned),
           (''title'', JStr raw),
           (''description'',
              or_else (get attributes ''description'')
                (JStr (''Service '' @ raw @ '' from Datadog catalog''))),
           (''annotations'', JObj
              ([(''datadoghq.com/service-name'', JStr raw),
                (''backstage.io/managed-by-location'', JStr (''datadog:'' @ site_text cfg)),
                (''backstage.io/managed-by-origin-location'', JStr (''datadog:'' @ site_text cfg))]
               @ location
               @ (if truthy (get attributes ''team'')
                  then [(''datadoghq.com/team'', get attributes ''team'')] else [])
               @ (if truthy (get attributes ''application'')
                  then [(''datadoghq.com/application'', get attributes ''application'')]
                  else []))),
           (''tags'', JArr ([JStr ''datadog''] @ tags @ tier)),
           (''links'', JArr
              (if truthy primaryRepo \<and> truthy (get primaryRepo ''url'')
               then [JObj [(''url'', get primaryRepo ''url''),
                           (''title'', JStr ''Repository''),
                           (''icon'', JStr ''code'')]]
               else []))]),
       (''spec'', JObj
          [(''type'', or_else (get attributes ''kind'') (JStr ''service'')),
           (''lifecycle'', or_else (get attributes ''lifecycle'') (JStr ''unknown'')),
           (''owner'', owner)])]"

text \<open>
  \<open>createServiceEntity(service)\<close>: what it writes, and what it returns: \<open>Inl\<close> a throw,
  \<open>Inr None\<close> for \<open>null\<close>, \<open>Inr (Some entity)\<close>. The statements run in the order of
  the source: name (only a string has \<open>toLowerCase\<close>), owner, repository, relationships
  (printed with \<open>console.log\<close>), then the entity literal, in which the spread of
  \<open>attributes.tags\<close> and the printing of the tier can throw, then the source location, in
  which the printing of the URL can throw.
\<close>

definition createServiceEntity ::
  "runtime \<Rightarrow> config \<Rightarrow> json \<Rightarrow> log_entry list \<times> (error + json option)" where
  "createServiceEntity js cfg service =
     (case read_prop service ''attributes'' of
        Inl e \<Rightarrow> ([], Inl e)
      | Inr attributes \<Rightarrow>
          if \<not> truthy attributes \<or> \<not> truthy (get attributes ''name'')
          then ([Logger LDebug ''Skipping service without name or attributes''], Inr None)
          else
            (case get attributes ''name'' of
               JStr raw \<Rightarrow>
                 (case resolve_owner attributes of
                    Inl e \<Rightarrow> ([], Inl e)
                  | Inr owner \<Rightarrow>
                      (case primary_repo attributes of
                         Inl e \<Rightarrow> ([], Inl e)
                       | Inr primaryRepo \<Rightarrow>
                           (case extractRelationships js service of
                              Inl e \<Rightarrow> ([], Inl e)
                            | Inr relationships \<Rightarrow>
                                (case iterate (or_else (get attributes ''tags'') (JArr [])) of
                                   Inl e \<Rightarrow> ([Console (JArr relationships)], Inl e)
                                 | Inr tags \<Rightarrow>
                                     (case tier_tag attributes of
                                        Inl e \<Rightarrow> ([Console (JArr relationships)], Inl e)
                                      | Inr tier \<Rightarrow>
                                          (case source_location primaryRepo of
                                             Inl e \<Rightarrow> ([Console (JArr relationships)], Inl e)
                                           | Inr location \<Rightarrow>
                                               ([Console (JArr relationships)],
                                                Inr (Some (build_entity cfg attributes raw
                                                   (clean_name js raw) owner primaryRepo tags
                                                   tier location)))))))))
             | _ \<Rightarrow> ([], Inl TypeError)))"

section \<open>CatalogSync: connect, run, discoverServices\<close>

record request =
  url :: string
  headers :: "(string \<times> string) list"

text \<open>What the code reads of a response: \<open>ok\<close>, \<open>status\<close>, \<open>statusText\<close>, and the
  results of \<open>text()\<close> and \<open>json()\<close>, either of which can reject.\<close>

record response =
  ok :: bool
  status :: nat
  statusText :: string
  text_result :: "error + string"
  json_result :: "error + json"

text \<open>The remote side: what \<open>fetch\<close> gives for a request, given how many requests came
  before it. \<open>Inl\<close> is a rejected \<open>fetch\<close>.\<close>

type_synonym http = "nat \<Rightarrow> request \<Rightarrow> error + response"

record deferred_entity =
  entity :: json
  locationKey :: string

record mutation =
  mutation_type :: string
  entities :: "deferred_entity list"

text \<open>The destination connection: \<open>applyMutation\<close> resolves (\<open>None\<close>) or rejects.\<close>

type_synonym connection = "mutation \<Rightarrow> error option"

text \<open>Everything the provider does to the outside, in order of occurrence.\<close>

record world =
  requests :: "request list"
  logs :: "log_entry list"
  mutations :: "mutation list"
  scheduled :: "string list"

record provider =
  provider_config :: config
  provider_connection :: "connection option"

definition getProviderName :: string where
  "getProviderName = ''DatadogServiceEntityProvider''"

definition baseUrl :: "config \<Rightarrow> string" where
  "baseUrl cfg = ''https://api.'' @ site_text cfg"

definition provider_headers :: "config \<Rightarrow> (string \<times> string) list" where
  "provider_headers cfg =
     [(''DD-API-KEY'', apiKey cfg),
      (''DD-APPLICATION-KEY'', applicationKey cfg),
      (''Content-Type'', ''application/json'')]"

definition log :: "level \<Rightarrow> string \<Rightarrow> world \<Rightarrow> world" where
  "log l m w = w\<lparr>logs := logs w @ [Logger l m]\<rparr>"

definition emit :: "log_entry list \<Rightarrow> world \<Rightarrow> world" where
  "emit ls w = w\<lparr>logs := logs w @ ls\<rparr>"

text \<open>\<open>v?.k\<close>.\<close>

definition opt_get :: "json \<Rightarrow> string \<Rightarrow> json" where
  "opt_get v k = (if v = JNull \<or> v = JUndefined then JUndefined else get v k)"

text \<open>\<open>v.length\<close> on a value that is not \<open>null\<close> or \<open>undefined\<close>.\<close>

fun js_length :: "json \<Rightarrow> json" where
  "js_length (JArr xs) = JNum (number_of_nat (length xs))"
| "js_length (JStr s) = JNum (number_of_nat (utf16_length s))"
| "js_length v = get v ''length''"

text \<open>
  The inner \<open>for\<close> loop of \<open>discoverServices\<close> with its \<open>try\<close>/\<open>catch\<close>: a throw of
  \<open>createServiceEntity\<close> is caught and logged as a warning. The message of that warning
  reads \<open>catalogEntity.attributes?.name\<close> and prints it, and both happen outside any inner
  \<open>try\<close>: when the read or the printing throws, the loop ends with that error.
\<close>

fun map_records ::
  "runtime \<Rightarrow> config \<Rightarrow> json list \<Rightarrow> json list \<Rightarrow> world \<Rightarrow> world \<times> (error + json list)" where
  "map_records js cfg [] backstageEntities w = (w, Inr backstageEntities)"
| "map_records js cfg (catalogEntity # rest) backstageEntities w =
     (case createServiceEntity js cfg catalogEntity of
        (ls, Inr None) \<Rightarrow> map_records js cfg rest backstageEntities (emit ls w)
      | (ls, Inr (Some e)) \<Rightarrow> map_records js cfg rest (backstageEntities @ [e]) (emit ls w)
      | (ls, Inl err) \<Rightarrow>
          (case read_prop catalogEntity ''attributes'' of
             Inl err' \<Rightarrow> (emit ls w, Inl err')
           | Inr attributes \<Rightarrow>
               (case toString (or_else (opt_get attributes ''name'') (JStr ''unknown'')) of
                  Inl err' \<Rightarrow> (emit ls w, Inl err')
                | Inr shown \<Rightarrow>
                    map_records js cfg rest backstageEntities
                      (log LWarn (''Failed to create entity for service '' @ shown)
                         (emit ls w)))))"

text \<open>
  The continuation test at the end of the loop body: \<open>Some offset\<close> sets \<open>offset\<close> and
  keeps \<open>hasNext\<close>, \<open>None\<close> clears \<open>hasNext\<close>. \<open>match_offset\<close> is
  \<open>next.match(/page%5Boffset%5D=(\\d+)/)\<close>: the leftmost place where the marker is followed
  by a digit, and there the longest run of digits.
\<close>

definition offset_marker :: string where
  "offset_marker = ''page%5Boffset%5D=''"

fun str_includes :: "string \<Rightarrow> string \<Rightarrow> bool" where
  "str_includes [] m = (m = [])"
| "str_includes (c # cs) m = (startsWith (c # cs) m \<or> str_includes cs m)"

fun match_offset :: "string \<Rightarrow> string option" where
  "match_offset [] = None"
| "match_offset (c # cs) =
     (if startsWith (c # cs) offset_marker
         \<and> takeWhile is_digit (drop (length offset_marker) (c # cs)) \<noteq> []
      then Some (takeWhile is_digit (drop (length offset_marker) (c # cs)))
      else match_offset cs)"

definition next_offset :: "runtime \<Rightarrow> json \<Rightarrow> number option" where
  "next_offset js data =
     (if truthy (get data ''links'')
      then
        (case get (get data ''links'') ''next'' of
           JStr nxt \<Rightarrow>
             if str_includes nxt offset_marker
             then
               (case match_offset nxt of
                  Some digits \<Rightarrow> if digits \<noteq> [] then Some (parseInt js digits) else None
                | None \<Rightarrow> None)
             else None
         | _ \<Rightarrow> None)
      else None)"

text \<open>How one pass of the \<open>while\<close> loop ends: with a new \<open>offset\<close> and \<open>hasNext\<close>
  still set, with the loop left (by \<open>break\<close> or \<open>hasNext = false\<close>), or with a throw.\<close>

datatype step = Continue number "json list" | Done "json list" | Throw error

definition limit :: number where
  "limit = number_of_nat 100"

definition page_url :: "config \<Rightarrow> number \<Rightarrow> string" where
  "page_url cfg offset =
     baseUrl cfg @ ''/api/v2/catalog/entity?include=schema&page[limit]='' @ number_text limit
       @ ''&page[offset]='' @ number_text offset"

definition fetch_page ::
  "runtime \<Rightarrow> config \<Rightarrow> http \<Rightarrow> number \<Rightarrow> json list \<Rightarrow> world \<Rightarrow> world \<times> step" where
  "fetch_page js cfg http offset backstageEntities w =
     (let req = \<lparr>url = page_url cfg offset, headers = provider_headers cfg\<rparr>;
          w1 = w\<lparr>requests := requests w @ [req]\<rparr>
      in
        case http (length (requests w)) req of
          Inl e \<Rightarrow> (w1, Throw e)
        | Inr resp \<Rightarrow>
            if \<not> ok resp then
              (case text_result resp of
                 Inl e \<Rightarrow> (w1, Throw e)
               | Inr errorText \<Rightarrow>
                   (log LError
                      (''Datadog API request failed: '' @ show_nat (status resp) @ '' ''
                         @ statusText resp) w1,
                    Throw (Error (''HTTP '' @ show_nat (status resp) @ '': '' @ statusText resp))))
            else
              (case json_result resp of
                 Inl e \<Rightarrow> (w1, Throw e)
               | Inr data \<Rightarrow>
                   if \<not> truthy data \<or> \<not> truthy (get data ''data'')
                   then
                     (log LWarn ''No entity data returned from Datadog Software Catalog API'' w1,
                      Done backstageEntities)
                   else
                     (let catalogEntities = get data ''data'' in
                      case toString (js_length catalogEntities) of
                        Inl e \<Rightarrow> (w1, Throw e)
                      | Inr shown \<Rightarrow>
                          (let w2 = log LInfo
                                      (''Fetched '' @ shown
                                         @ '' entities from Datadog Software Catalog (offset ''
                                         @ number_text offset @ '')'') w1
                           in
                             case iterate catalogEntities of
                               Inl e \<Rightarrow> (w2, Throw e)
                             | Inr records \<Rightarrow>
                                 (case map_records js cfg records backstageEntities w2 of
                                    (w3, Inl e) \<Rightarrow> (w3, Throw e)
                                  | (w3, Inr backstageEntities') \<Rightarrow>
                                      (case next_offset js data of
                                         Some offset' \<Rightarrow> (w3, Continue offset' backstageEntities')
                                       | None \<Rightarrow> (w3, Done backstageEntities')))))))"

text \<open>The \<open>while (hasNext)\<close> loop. Nothing bounds the number of pages: a server whose
  \<open>next\<close> links never end keeps it running, and then there is no result (\<open>None\<close>).\<close>

partial_function (option) paginate ::
  "runtime \<Rightarrow> config \<Rightarrow> http \<Rightarrow> number \<Rightarrow> json list \<Rightarrow> world
     \<Rightarrow> (world \<times> (error + json list)) option" where
  "paginate js cfg http offset backstageEntities w =
     (case fetch_page js cfg http offset backstageEntities w of
        (w', Continue offset' backstageEntities') \<Rightarrow>
          paginate js cfg http offset' backstageEntities' w'
      | (w', Done backstageEntities') \<Rightarrow> Some (w', Inr backstageEntities')
      | (w', Throw e) \<Rightarrow> Some (w', Inl e))"

declare paginate.simps [code]

text \<open>\<open>discoverServices()\<close>: the loop from offset 0 with no entities, and the outer
  \<open>catch\<close>, which logs and throws the same error again.\<close>

definition discoverServices ::
  "runtime \<Rightarrow> config \<Rightarrow> http \<Rightarrow> world \<Rightarrow> (world \<times> (error + json list)) option" where
  "discoverServices js cfg http w =
     (case paginate js cfg http (number_of_nat 0) [] w of
        None \<Rightarrow> None
      | Some (w', Inr backstageEntities) \<Rightarrow> Some (w', Inr backstageEntities)
      | Some (w', Inl e) \<Rightarrow>
          Some (emit [LoggerOf LError
                        ''Failed to fetch entities from Datadog Software Catalog: '' e] w',
                Inl e))"

text \<open>\<open>connect(connection)\<close> stores the connection and hands the task to the scheduler,
  which is outside the program and calls \<open>run\<close> when it decides to.\<close>

definition connect :: "provider \<Rightarrow> connection \<Rightarrow> world \<Rightarrow> provider \<times> world" where
  "connect p conn w =
     (p\<lparr>provider_connection := Some conn\<rparr>, w\<lparr>scheduled := scheduled w @ [getProviderName]\<rparr>)"

definition full_mutation :: "json list \<Rightarrow> mutation" where
  "full_mutation es =
     \<lparr>mutation_type = ''full'',
      entities = map (\<lambda>e. \<lparr>entity = e, locationKey = getProviderName\<rparr>) es\<rparr>"

text \<open>\<open>run()\<close>. The call of \<open>applyMutation\<close> is recorded in \<open>mutations\<close> whether it
  resolves or rejects.\<close>

definition run ::
  "runtime \<Rightarrow> provider \<Rightarrow> http \<Rightarrow> world \<Rightarrow> (world \<times> (error + unit)) option" where
  "run js p http w =
     (case provider_connection p of
        None \<Rightarrow> Some (w, Inl (Error ''Not initialized''))
      | Some conn \<Rightarrow>
          (case discoverServices js (provider_config p) http
                  (log LInfo ''Discovering entities from Datadog Software Catalog'' w) of
             None \<Rightarrow> None
           | Some (w', Inl e) \<Rightarrow>
               Some (log LError ''Failed to discover entities from Datadog Software Catalog'' w',
                     Inl e)
           | Some (w', Inr es) \<Rightarrow>
               (let w'' = w'\<lparr>mutations := mutations w' @ [full_mutation es]\<rparr> in
                case conn (full_mutation es) of
                  Some e \<Rightarrow>
                    Some (log LError
                            ''Failed to discover entities from Datadog Software Catalog'' w'',
                          Inl e)
                | None \<Rightarrow>
                    Some (log LInfo
                            (''Discovered '' @ show_nat (length es)
                               @ '' entities from Datadog Software Catalog'') w'',
                          Inr ()))))"

text \<open>What \<open>createServiceEntity\<close> returned when it returned an entity.\<close>

definition returned :: "log_entry list \<times> (error + json option) \<Rightarrow> json option" where
  "returned r = (case snd r of Inr (Some e) \<Rightarrow> Some e | _ \<Rightarrow> None)"



text \<open>
  The continuation link in the words of the specification: at position \<open>i\<close> of the link
  stands the marker \<open>page%5Boffset%5D=\<close> with a digit after it, and the digits that follow
  the marker there.
\<close>

definition offset_at :: "string \<Rightarrow> nat \<Rightarrow> bool" where
  "offset_at s i =
     (take (length offset_marker) (drop i s) = offset_marker
      \<and> i + length offset_marker < length s
      \<and> is_digit (s ! (i + length offset_marker)))"

definition digits_at :: "string \<Rightarrow> nat \<Rightarrow> string" where
  "digits_at s i = takeWhile is_digit (drop (i + length offset_marker) s)"



section \<open>Concrete inputs\<close>

text \<open>An engine for inputs that never reach its tables.\<close>

definition plain_runtime :: runtime where
  "plain_runtime =
     \<lparr>unicode_lower = (\<lambda>s. s), locale_lower = (\<lambda>s. s),
      float_parse = (\<lambda>ds. Number False ''Infinity'')\<rparr>"

definition example_config :: config where
  "example_config =
     \<lparr>apiKey = ''api-key'', applicationKey = ''app-key'', site = Some ''datadoghq.com''\<rparr>"

definition empty_world :: world where
  "empty_world = \<lparr>requests = [], logs = [], mutations = [], scheduled = []\<rparr>"

definition ok_response :: "json \<Rightarrow> response" where
  "ok_response body =
     \<lparr>ok = True, status = 200, statusText = ''OK'', text_result = Inr [],
      json_result = Inr body\<rparr>"

definition accepting :: connection where
  "accepting m = None"

definition connected_provider :: provider where
  "connected_provider =
     \<lparr>provider_config = example_config, provider_connection = Some accepting\<rparr>"

text \<open>A name outside ASCII: \<open>Istanbul\<close> with the dotted capital I (U+0130, the bytes
  C4 B0), which has one code unit and whose lower case has two (\<open>i\<close> and U+0307, the bytes
  CC 87); and an engine that knows this one mapping.\<close>

definition istanbul :: string where
  "istanbul = CHR 0xC4 # CHR 0xB0 # ''stanbul''"

definition dotted_runtime :: runtime where
  "dotted_runtime =
     \<lparr>unicode_lower =
        (\<lambda>s. if s = istanbul then CHR ''i'' # CHR 0xCC # CHR 0x87 # ''stanbul'' else s),
      locale_lower = (\<lambda>s. s),
      float_parse = (\<lambda>ds. Number False ''Infinity'')\<rparr>"

text \<open>The relationship id of the comments in \<open>extractRelationships\<close> and
  \<open>parseDdEntityRef\<close>, and the same id with the target written with three colons.\<close>

definition music_player_id :: string where
  "music_player_id =
     ''frontend:default/music-player-app:RelationTypeDependsOn:service:default/music-player-service''"

definition colon_id :: string where
  "colon_id =
     ''frontend:default/music-player-app:RelationTypeDependsOn:service:default:music-player-service''"

definition service_with_relation :: "string \<Rightarrow> json" where
  "service_with_relation ident =
     JObj [(''attributes'', JObj [(''name'', JStr ''music-player-app'')]),
           (''relationships'',
              JObj [(''relatedEntities'',
                       JObj [(''data'', JArr [JObj [(''id'', JStr ident)]])])])]"

text \<open>A server whose page is \<open>{"data": [null]}\<close>.\<close>

definition null_record_http :: http where
  "null_record_http n req = Inr (ok_response (JObj [(''data'', JArr [JNull])]))"



definition bare_service :: json where
  "bare_service = JObj [(''attributes'', JObj [(''name'', JStr ''My Service!'')])]"

text \<open>Servers: one page with one record and no \<open>next\<close> link; a first page with a
  \<open>next\<close> link to offset 250 and then a body without \<open>data\<close>; a body without
  \<open>data\<close>; a first page with a link and then status 503; an answer with status 500.\<close>

definition one_page_http :: http where
  "one_page_http n req = Inr (ok_response (JObj [(''data'', JArr [bare_service])]))"

definition linked_page :: json where
  "linked_page =
     JObj [(''data'', JArr [bare_service]),
           (''links'', JObj [(''next'', JStr
              ''https://api.datadoghq.com/api/v2/catalog/entity?include=schema&page%5Blimit%5D=100&page%5Boffset%5D=250'')])]"

definition two_page_http :: http where
  "two_page_http n req =
     (if n = 0 then Inr (ok_response linked_page) else Inr (ok_response (JObj [])))"

definition no_data_http :: http where
  "no_data_http n req = Inr (ok_response (JObj [(''links'', JObj [])]))"



section \<open>Properties\<close>

subsection \<open>What a mapped entity is made of\<close>

lemma allowed_facts:
  assumes "allowed_char c"
  shows "is_ascii c" and "\<not> is_upper c" and "ascii_lower c = c" and "replace_unit c = [c]"
  using assms
  by (auto simp add: allowed_char_def is_ascii_def is_upper_def is_lower_def is_digit_def
        ascii_lower_def replace_unit_def)

lemma replace_unit_allowed: "list_all allowed_char (replace_unit c)"
  by (simp add: replace_unit_def allowed_char_def list_all_iff)

lemma length_replace_unit: "length (replace_unit c) = unit_count c"
  by (simp add: replace_unit_def unit_count_def is_ascii_def Let_def)

lemma replace_disallowed_allowed: "list_all allowed_char (replace_disallowed s)"
  by (induction s) (simp_all add: replace_disallowed_def replace_unit_allowed)

lemma length_replace_disallowed: "length (replace_disallowed s) = utf16_length s"
  by (induction s) (simp_all add: replace_disallowed_def utf16_length_def length_replace_unit)

lemma replace_disallowed_ascii:
  "list_all is_ascii s
   \<Longrightarrow> replace_disallowed s = map (\<lambda>c. if allowed_char c then c else CHR ''-'') s"
  by (induction s) (simp_all add: replace_disallowed_def replace_unit_def)

lemma ascii_lower_ascii: "is_ascii c \<Longrightarrow> is_ascii (ascii_lower c)"
  by (auto simp add: ascii_lower_def is_ascii_def is_upper_def)

lemma clean_name_ascii:
  assumes "list_all is_ascii x"
  shows "clean_name js x =
           map (\<lambda>c. if allowed_char (ascii_lower c) then ascii_lower c else CHR ''-'') x"
proof -
  from assms have "list_all is_ascii (map ascii_lower x)"
    by (induction x) (simp_all add: ascii_lower_ascii)
  from replace_disallowed_ascii [OF this] assms show ?thesis
    by (simp add: clean_name_def toLowerCase_def comp_def)
qed

lemma map_allowed_fixed:
  "list_all allowed_char s
   \<Longrightarrow> map (\<lambda>c. if allowed_char (ascii_lower c) then ascii_lower c else CHR ''-'') s = s"
  by (induction s) (simp_all add: allowed_facts(3))

lemma clean_fixed: "list_all allowed_char s \<Longrightarrow> clean_name js s = s"
proof -
  assume a: "list_all allowed_char s"
  then have "list_all is_ascii s"
    by (induction s) (simp_all add: allowed_facts(1))
  from clean_name_ascii [OF this] map_allowed_fixed [OF a] show ?thesis
    by simp
qed

lemma clean_name_allowed: "list_all allowed_char (clean_name js x)"
  by (simp add: clean_name_def replace_disallowed_allowed)

lemma returned_SomeD:
  assumes "returned (createServiceEntity js cfg service) = Some e"
  shows "\<exists>raw owner repo tags tier location.
           get (get service ''attributes'') ''name'' = JStr raw \<and> raw \<noteq> []
         \<and> truthy (get service ''attributes'')
         \<and> resolve_owner (get service ''attributes'') = Inr owner
         \<and> primary_repo (get service ''attributes'') = Inr repo
         \<and> iterate (or_else (get (get service ''attributes'') ''tags'') (JArr [])) = Inr tags
         \<and> tier_tag (get service ''attributes'') = Inr tier
         \<and> source_location repo = Inr location
         \<and> e = build_entity cfg (get service ''attributes'') raw (clean_name js raw) owner repo
                 tags tier location"
proof -
  from assms have "service \<noteq> JNull" "service \<noteq> JUndefined"
    by (auto simp add: returned_def createServiceEntity_def)
  then have rp: "read_prop service ''attributes'' = Inr (get service ''attributes'')"
    by (cases service) simp_all
  show ?thesis
    using assms unfolding returned_def createServiceEntity_def rp
    by (cases "get (get service ''attributes'') ''name''")
       (auto split: if_splits sum.splits)
qed

text \<open>
  Claim C5. For every raw name, whatever the engine's case tables: every character of the
  derived name is in \<open>[a-z0-9-]\<close>; the derived name has one character for each code unit
  of the lower-cased name, so nothing is merged or dropped; for a raw name of ASCII characters
  the derived name is, place by place, the lower-cased character when that is in the class and
  a dash otherwise; deriving again changes nothing; \<open>My Service!\<close> gives
  \<open>my-service-\<close>; and the \<open>metadata.name\<close> of every entity that
  \<open>createServiceEntity\<close> returns is the name derived from \<open>attributes.name\<close>.
\<close>

theorem name_derivation:
  "list_all allowed_char (clean_name js x)
   \<and> length (clean_name js x) = utf16_length (toLowerCase js x)
   \<and> (list_all is_ascii x \<longrightarrow>
        clean_name js x =
          map (\<lambda>c. if allowed_char (ascii_lower c) then ascii_lower c else CHR ''-'') x)
   \<and> clean_name js (clean_name js x) = clean_name js x
   \<and> clean_name js ''My Service!'' = ''my-service-''
   \<and> (returned (createServiceEntity js cfg service) = Some e \<longrightarrow>
        (\<exists>raw. get (get service ''attributes'') ''name'' = JStr raw
               \<and> get (get e ''metadata'') ''name'' = JStr (clean_name js raw)))"
proof -
  have 1: "length (clean_name js x) = utf16_length (toLowerCase js x)"
    by (simp add: clean_name_def length_replace_disallowed)
  have 2: "list_all is_ascii x \<longrightarrow>
        clean_name js x =
          map (\<lambda>c. if allowed_char (ascii_lower c) then ascii_lower c else CHR ''-'') x"
    using clean_name_ascii by blast
  have a: "list_all is_ascii ''My Service!''"
    by (simp add: is_ascii_def)
  have 5: "clean_name js ''My Service!'' = ''my-service-''"
    unfolding clean_name_ascii [OF a] by code_simp
  have 6: "returned (createServiceEntity js cfg service) = Some e \<longrightarrow>
        (\<exists>raw. get (get service ''attributes'') ''name'' = JStr raw
               \<and> get (get e ''metadata'') ''name'' = JStr (clean_name js raw))"
  proof
    assume "returned (createServiceEntity js cfg service) = Some e"
    from returned_SomeD [OF this]
    show "\<exists>raw. get (get service ''attributes'') ''name'' = JStr raw
               \<and> get (get e ''metadata'') ''name'' = JStr (clean_name js raw)"
      by (auto simp add: build_entity_def)
  qed
  show ?thesis
    using 1 2 5 6 clean_name_allowed clean_fixed [OF clean_name_allowed] by blast
qed

theorem name_derivation_witness:
  "returned (createServiceEntity plain_runtime example_config bare_service) \<noteq> None
   \<and> length (clean_name plain_runtime ''A_b'') = 3
   \<and> list_all allowed_char (clean_name plain_runtime ''A_b'')
   \<and> get (get (the (returned (createServiceEntity plain_runtime example_config bare_service)))
        ''metadata'') ''name'' = JStr ''my-service-''
   \<and> utf16_length istanbul = 8
   \<and> length (clean_name dotted_runtime istanbul) = 9
   \<and> clean_name dotted_runtime istanbul = ''i-stanbul''"
proof -
  have r: "returned (createServiceEntity plain_runtime example_config bare_service)
             = Some (the (returned (createServiceEntity plain_runtime example_config bare_service)))"
    by code_simp
  have n: "get (get bare_service ''attributes'') ''name'' = JStr ''My Service!''"
    by code_simp
  have l: "utf16_length (toLowerCase plain_runtime ''A_b'') = 3"
    "utf16_length (toLowerCase dotted_runtime istanbul) = 9"
    "utf16_length istanbul = 8"
    by code_simp+
  have i: "clean_name dotted_runtime istanbul = ''i-stanbul''"
    by code_simp
  from name_derivation [of plain_runtime "''A_b''" example_config bare_service
      "the (returned (createServiceEntity plain_runtime example_config bare_service))"]
    name_derivation [of dotted_runtime istanbul] r
  show ?thesis
    by (auto simp add: n l i)
qed








text \<open>
  Claim C10. Every entity produced from a record has: as description the raw description,
  or \<open>Service {raw name} from Datadog catalog\<close> when there is none; as \<open>spec.type\<close> the
  raw kind, or \<open>service\<close>; as \<open>spec.lifecycle\<close> the raw lifecycle, or \<open>unknown\<close>; and
  the three provenance annotations, the service name and twice \<open>datadog:{site}\<close>.
\<close>

theorem entity_defaults:
  assumes "returned (createServiceEntity js cfg service) = Some e"
  shows "(\<exists>raw. get (get service ''attributes'') ''name'' = JStr raw
           \<and> get (get e ''metadata'') ''description'' =
               (if truthy (get (get service ''attributes'') ''description'')
                then get (get service ''attributes'') ''description''
                else JStr (''Service '' @ raw @ '' from Datadog catalog'')))
       \<and> get (get e ''spec'') ''type'' =
               (if truthy (get (get service ''attributes'') ''kind'')
                then get (get service ''attributes'') ''kind'' else JStr ''service'')
       \<and> get (get e ''spec'') ''lifecycle'' =
               (if truthy (get (get service ''attributes'') ''lifecycle'')
                then get (get service ''attributes'') ''lifecycle'' else JStr ''unknown'')
       \<and> get (get (get e ''metadata'') ''annotations'') ''datadoghq.com/service-name'' =
               get (get service ''attributes'') ''name''
       \<and> get (get (get e ''metadata'') ''annotations'') ''backstage.io/managed-by-location'' =
               JStr (''datadog:'' @ site_text cfg)
       \<and> get (get (get e ''metadata'') ''annotations'')
             ''backstage.io/managed-by-origin-location'' =
               JStr (''datadog:'' @ site_text cfg)"
proof -
  from returned_SomeD [OF assms] obtain raw owner repo tags tier location where
    n: "get (get service ''attributes'') ''name'' = JStr raw" and
    e: "e = build_entity cfg (get service ''attributes'') raw (clean_name js raw) owner repo
              tags tier location"
    by blast
  show ?thesis
    by (simp add: e n build_entity_def or_else_def)
qed

theorem entity_defaults_witness:
  "returned (createServiceEntity plain_runtime example_config bare_service) \<noteq> None
   \<and> get (get (the (returned (createServiceEntity plain_runtime example_config bare_service)))
        ''metadata'') ''description'' = JStr ''Service My Service! from Datadog catalog''
   \<and> get (get (the (returned (createServiceEntity plain_runtime example_config bare_service)))
        ''spec'') ''type'' = JStr ''service''
   \<and> get (get (the (returned (createServiceEntity plain_runtime example_config bare_service)))
        ''spec'') ''lifecycle'' = JStr ''unknown''
   \<and> get (get (get (the (returned (createServiceEntity plain_runtime example_config bare_service)))
        ''metadata'') ''annotations'') ''backstage.io/managed-by-location''
        = JStr ''datadog:datadoghq.com''"
proof -
  have r: "returned (createServiceEntity plain_runtime example_config bare_service)
             = Some (the (returned (createServiceEntity plain_runtime example_config bare_service)))"
    by code_simp
  have n: "get (get bare_service ''attributes'') ''name'' = JStr ''My Service!''"
    "get (get bare_service ''attributes'') ''description'' = JUndefined"
    "get (get bare_service ''attributes'') ''kind'' = JUndefined"
    "get (get bare_service ''attributes'') ''lifecycle'' = JUndefined"
    "site_text example_config = ''datadoghq.com''"
    by code_simp+
  from r have "returned (createServiceEntity plain_runtime example_config bare_service) \<noteq> None"
    by (metis option.distinct(1))
  then show ?thesis
    using entity_defaults [OF r] by (simp add: n)
qed

subsection \<open>Relationships\<close>

text \<open>
  Claim C1. The claim: the relations that \<open>extractRelationships\<close> gives for a record are
  attached to the entity, in its \<open>relations\<close> field. In the code \<open>createServiceEntity\<close>
  computes them (the comment beside the call reads "tood: add to spec") and passes them to
  \<open>console.log\<close> only. For the record below the translator gives one relation, the
  entity is produced, and the entity has no \<open>relations\<close> property, neither at the top nor
  under \<open>spec\<close> or \<open>metadata\<close>.
\<close>

theorem relations_not_attached:
  "extractRelationships js (service_with_relation colon_id) =
     Inr [JObj [(''type'', JStr ''dependsOn''),
                (''target'', JStr ''service:default/music-player-service'')]]
   \<and> (case createServiceEntity js example_config (service_with_relation colon_id) of
         (ls, Inr (Some e)) \<Rightarrow>
           ls = [Console (JArr [JObj [(''type'', JStr ''dependsOn''),
                   (''target'', JStr ''service:default/music-player-service'')]])]
           \<and> get e ''relations'' = JUndefined
           \<and> get (get e ''spec'') ''relations'' = JUndefined
           \<and> get (get e ''metadata'') ''relations'' = JUndefined
       | _ \<Rightarrow> False)"
  by code_simp

theorem relations_not_attached_witness:
  "returned (createServiceEntity plain_runtime example_config (service_with_relation colon_id))
      \<noteq> None
   \<and> get (the (returned (createServiceEntity plain_runtime example_config
                (service_with_relation colon_id))))
        ''relations'' = JUndefined"
  using relations_not_attached [of plain_runtime]
  by (auto simp add: returned_def split: prod.splits sum.splits option.splits)

text \<open>
  Claim C2. The claim: the id
  \<open>frontend:default/music-player-app:RelationTypeDependsOn:service:default/music-player-service\<close>
  translates to exactly one relation, of type \<open>dependsOn\<close>, to
  \<open>service:default/music-player-service\<close>. In the code the id splits on the colon into five
  parts, two of them after the marker; \<open>parseDdEntityRef\<close> wants three, finds no \<open>name\<close>
  and returns \<open>null\<close>, and the relationship is skipped: the result is the empty list.
\<close>

theorem music_player_relationship_dropped:
  "split CHR '':'' music_player_id =
     [''frontend'', ''default/music-player-app'', ''RelationTypeDependsOn'', ''service'',
      ''default/music-player-service'']
   \<and> parseDdEntityRef music_player_id = None
   \<and> extractRelationships js (service_with_relation music_player_id) = Inr []"
  by code_simp

theorem music_player_relationship_dropped_witness:
  "relation_of plain_runtime (JObj [(''id'', JStr music_player_id)]) = Inr None
   \<and> extractRelationships plain_runtime (service_with_relation music_player_id) = Inr []"
proof -
  have "relation_of plain_runtime (JObj [(''id'', JStr music_player_id)]) = Inr None"
    by code_simp
  with music_player_relationship_dropped [of plain_runtime] show ?thesis
    by simp
qed

subsection \<open>Running before connecting\<close>

text \<open>
  Claim C4. \<open>run()\<close> on a provider without a connection fails at once with the error
  \<open>Not initialized\<close>, and the world is the one it started from: no request was sent, no
  mutation submitted, nothing logged.
\<close>

theorem run_not_connected:
  "run js (p\<lparr>provider_connection := None\<rparr>) http w = Some (w, Inl (Error ''Not initialized''))"
  by (simp add: run_def)

theorem run_not_connected_witness:
  "run plain_runtime (connected_provider\<lparr>provider_connection := None\<rparr>) one_page_http empty_world
     = Some (empty_world, Inl (Error ''Not initialized''))"
  by (rule run_not_connected)

subsection \<open>Failures of single records\<close>

text \<open>What the inner \<open>try\<close>/\<open>catch\<close> does achieve: a record without attributes or
  name is skipped; and a record that is not \<open>null\<close>, fails to convert and whose name can
  be printed costs one warning, after which the loop goes on with the next record.\<close>

lemma createServiceEntity_skips:
  assumes "service \<noteq> JNull" and "service \<noteq> JUndefined"
    and "\<not> truthy (get service ''attributes'')
         \<or> \<not> truthy (get (get service ''attributes'') ''name'')"
  shows "createServiceEntity js cfg service =
           ([Logger LDebug ''Skipping service without name or attributes''], Inr None)"
proof -
  from assms(1,2) have "read_prop service ''attributes'' = Inr (get service ''attributes'')"
    by (cases service) simp_all
  with assms(3) show ?thesis
    by (auto simp add: createServiceEntity_def)
qed

lemma map_records_absorbs:
  assumes "createServiceEntity js cfg x = (ls, Inl err)"
    and "x \<noteq> JNull" and "x \<noteq> JUndefined"
    and "toString (or_else (opt_get (get x ''attributes'') ''name'') (JStr ''unknown''))
           = Inr shown"
  shows "map_records js cfg (x # rest) acc w =
           map_records js cfg rest acc
             (log LWarn (''Failed to create entity for service '' @ shown) (emit ls w))"
proof -
  from assms(2,3) have "read_prop x ''attributes'' = Inr (get x ''attributes'')"
    by (cases x) simp_all
  with assms(1,4) show ?thesis
    by simp
qed

lemma null_page_step:
  "fetch_page js example_config null_record_http (number_of_nat 0) [] w = (w', st)
   \<Longrightarrow> st = Throw TypeError \<and> mutations w' = mutations w"
  by (auto simp add: fetch_page_def null_record_http_def ok_response_def Let_def log_def
        emit_def createServiceEntity_def split: prod.splits sum.splits option.splits)

text \<open>
  Claim C9. The claim: a failure while converting one record is absorbed, the record is
  dropped with a warning and the run goes on. The \<open>catch\<close> block that absorbs it builds
  its message from \<open>catalogEntity.attributes?.name\<close>; for a record that is \<open>null\<close> that
  read throws again, outside the inner \<open>try\<close>. On the page \<open>{"data": [null]}\<close> the
  conversion throws, and the run ends with that \<open>TypeError\<close> and no mutation.
\<close>

theorem null_record_aborts_run:
  "createServiceEntity js example_config JNull = ([], Inl TypeError)
   \<and> map_option (\<lambda>(w, r). (mutations w, r))
        (run js connected_provider null_record_http empty_world)
       = Some ([], Inl TypeError)"
proof -
  let ?w = "log LInfo ''Discovering entities from Datadog Software Catalog'' empty_world"
  have a: "createServiceEntity js example_config JNull = ([], Inl TypeError)"
    by (simp add: createServiceEntity_def)
  obtain w' st where
    f: "fetch_page js example_config null_record_http (number_of_nat 0) [] ?w = (w', st)"
    by (cases "fetch_page js example_config null_record_http (number_of_nat 0) [] ?w")
  from null_page_step [OF f] have st: "st = Throw TypeError" and m: "mutations w' = []"
    by (simp_all add: log_def empty_world_def)
  have "paginate js example_config null_record_http (number_of_nat 0) [] ?w
          = Some (w', Inl TypeError)"
    by (subst paginate.simps) (simp add: f st)
  then show ?thesis
    using a m by (simp add: run_def connected_provider_def discoverServices_def log_def emit_def)
qed

theorem null_record_aborts_run_witness:
  "map_option snd (run plain_runtime connected_provider null_record_http empty_world)
     = Some (Inl TypeError)"
  using null_record_aborts_run [of plain_runtime]
  by (cases "run plain_runtime connected_provider null_record_http empty_world") auto

subsection \<open>Pagination\<close>

lemma map_records_world:
  "map_records js cfg rs acc w = (w', r)
   \<Longrightarrow> mutations w' = mutations w \<and> requests w' = requests w"
proof (induction rs arbitrary: acc w)
  case Nil
  then show ?case by simp
next
  case (Cons x xs)
  then show ?case
    by (auto simp add: log_def emit_def split: prod.splits sum.splits option.splits)
qed

lemma fetch_page_world:
  assumes "fetch_page js cfg http off acc w = (w', st)"
  shows "mutations w' = mutations w"
    and "requests w' = requests w @ [\<lparr>url = page_url cfg off, headers = provider_headers cfg\<rparr>]"
  using assms
  by (auto simp add: fetch_page_def Let_def log_def
        split: sum.splits if_splits prod.splits option.splits dest!: map_records_world)


lemma paginate_Done:
  "fetch_page js cfg http off acc w = (w', Done es)
   \<Longrightarrow> paginate js cfg http off acc w = Some (w', Inr es)"
  by (subst paginate.simps) simp


lemma paginate_Continue:
  "fetch_page js cfg http off acc w = (w', Continue off' es)
   \<Longrightarrow> paginate js cfg http off acc w = paginate js cfg http off' es w'"
  by (subst paginate.simps) simp




lemma startsWith_take: "startsWith s m = (take (length m) s = m)"
  by (induction s m rule: startsWith.induct) auto

lemma takeWhile_nonempty: "(takeWhile P xs \<noteq> []) = (xs \<noteq> [] \<and> P (hd xs))"
  by (cases xs) auto

lemma offset_at_Nil: "\<not> offset_at [] i"
  by (simp add: offset_at_def)

lemma offset_at_Suc: "offset_at (c # cs) (Suc i) = offset_at cs i"
  by (simp add: offset_at_def)

lemma digits_at_Suc: "digits_at (c # cs) (Suc i) = digits_at cs i"
  by (simp add: digits_at_def)

lemma offset_at_0:
  "offset_at s 0 = (startsWith s offset_marker \<and> takeWhile is_digit (drop (length offset_marker) s) \<noteq> [])"
  by (auto simp add: offset_at_def startsWith_take takeWhile_nonempty hd_drop_conv_nth)

lemma match_offset_step:
  "match_offset (c # cs) = (if offset_at (c # cs) 0 then Some (digits_at (c # cs) 0) else match_offset cs)"
  using offset_at_0 [of "c # cs"] by (simp add: digits_at_def del: startsWith.simps)

lemma match_offset_None: "(match_offset s = None) = (\<forall>i. \<not> offset_at s i)"
proof (induction s)
  case Nil
  then show ?case by (simp add: offset_at_Nil)
next
  case (Cons c cs)
  show ?case
  proof (cases "offset_at (c # cs) 0")
    case True
    then show ?thesis by (auto simp add: match_offset_step simp del: match_offset.simps)
  next
    case False
    have "(\<forall>i. \<not> offset_at (c # cs) i) = (\<forall>i. \<not> offset_at cs i)"
    proof
      assume a: "\<forall>i. \<not> offset_at (c # cs) i"
      show "\<forall>i. \<not> offset_at cs i"
      proof
        fix i from a have "\<not> offset_at (c # cs) (Suc i)" by blast
        then show "\<not> offset_at cs i" by (simp add: offset_at_Suc)
      qed
    next
      assume a: "\<forall>i. \<not> offset_at cs i"
      show "\<forall>i. \<not> offset_at (c # cs) i"
      proof
        fix i show "\<not> offset_at (c # cs) i"
          using False a by (cases i) (simp_all add: offset_at_Suc)
      qed
    qed
    with False Cons show ?thesis
      by (simp add: match_offset_step del: match_offset.simps)
  qed
qed

lemma match_offset_Some:
  "match_offset s = Some ds
   \<Longrightarrow> \<exists>i. offset_at s i \<and> (\<forall>j<i. \<not> offset_at s j) \<and> ds = digits_at s i \<and> ds \<noteq> []"
proof (induction s)
  case Nil
  then show ?case by simp
next
  case (Cons c cs)
  show ?case
  proof (cases "offset_at (c # cs) 0")
    case True
    with Cons.prems have "ds = digits_at (c # cs) 0"
      by (simp add: match_offset_step del: match_offset.simps)
    moreover from True have "digits_at (c # cs) 0 \<noteq> []"
      by (simp add: offset_at_0 digits_at_def del: startsWith.simps)
    ultimately show ?thesis using True by (intro exI [of _ 0]) simp
  next
    case False
    with Cons.prems have "match_offset cs = Some ds"
      by (simp add: match_offset_step del: match_offset.simps)
    from Cons.IH [OF this] obtain i where
      i: "offset_at cs i" "\<forall>j<i. \<not> offset_at cs j" "ds = digits_at cs i" "ds \<noteq> []" by blast
    have "\<forall>j<Suc i. \<not> offset_at (c # cs) j"
    proof (intro allI impI)
      fix j assume "j < Suc i"
      then show "\<not> offset_at (c # cs) j"
        using False i(2) by (cases j) (simp_all add: offset_at_Suc)
    qed
    with i show ?thesis
      by (intro exI [of _ "Suc i"]) (simp add: offset_at_Suc digits_at_Suc)
  qed
qed

lemma match_offset_includes: "match_offset s = Some ds \<Longrightarrow> str_includes s offset_marker"
  by (induction s) (auto split: if_splits)

lemma next_offset_alt:
  "next_offset js data =
     (if truthy (get data ''links'')
      then (case get (get data ''links'') ''next'' of
              JStr nxt \<Rightarrow> map_option (parseInt js) (match_offset nxt)
            | _ \<Rightarrow> None)
      else None)"
proof -
  have "\<And>s. (if str_includes s offset_marker
             then (case match_offset s of
                     Some digits \<Rightarrow> if digits \<noteq> [] then Some (parseInt js digits) else None
                   | None \<Rightarrow> None)
             else None) = map_option (parseInt js) (match_offset s)"
    using match_offset_includes match_offset_Some
    by (fastforce split: option.splits)
  then show ?thesis
    by (simp add: next_offset_def split: json.splits)
qed

lemma of_char_digit_char: "d < 10 \<Longrightarrow> of_char (digit_char d) = 48 + d"
  by (simp add: digit_char_def)

lemma is_digit_digit_char: "d < 10 \<Longrightarrow> is_digit (digit_char d)"
  by (simp add: is_digit_def of_char_digit_char)

lemma decimal_value_snoc:
  "decimal_value (ds @ [c]) = 10 * decimal_value ds + (of_char c - 48)"
  by (simp add: decimal_value_def)

lemma show_nat_digits: "show_nat n \<noteq> [] \<and> list_all is_digit (show_nat n)"
proof (induction n rule: show_nat.induct)
  case (1 n)
  show ?case
  proof (cases "n < 10")
    case True
    then show ?thesis
      by (subst (1 2) show_nat.simps) (simp add: is_digit_digit_char)
  next
    case False
    with 1 have "list_all is_digit (show_nat (n div 10))" by simp
    with False show ?thesis
      by (subst (1 2) show_nat.simps) (simp add: is_digit_digit_char)
  qed
qed

lemma decimal_value_show_nat: "decimal_value (show_nat n) = n"
proof (induction n rule: show_nat.induct)
  case (1 n)
  show ?case
  proof (cases "n < 10")
    case True
    then show ?thesis
      by (subst show_nat.simps) (simp add: decimal_value_def of_char_digit_char)
  next
    case False
    with 1 have "decimal_value (show_nat (n div 10)) = n div 10" by simp
    with False show ?thesis
      by (subst show_nat.simps) (simp add: decimal_value_snoc of_char_digit_char)
  qed
qed

lemma parseInt_exact:
  "ds \<noteq> [] \<Longrightarrow> list_all is_digit ds \<Longrightarrow> int (decimal_value ds) < 2 ^ 53
   \<Longrightarrow> number_text (parseInt js ds) = show_nat (decimal_value ds)"
  by (simp add: parseInt_def number_of_nat_def)

lemma digits_at_digits: "list_all is_digit (digits_at s i)"
  by (simp add: digits_at_def list_all_iff) (meson set_takeWhileD)



lemma fetch_page_step:
  assumes "http (length (requests w))
             \<lparr>url = page_url cfg offset, headers = provider_headers cfg\<rparr> = Inr resp"
    and "ok resp" and "json_result resp = Inr data"
    and "truthy data" and "truthy (get data ''data'')"
    and "fetch_page js cfg http offset acc w = (w', st)" and "\<And>e. st \<noteq> Throw e"
  shows "\<exists>acc'. st = (case next_offset js data of
                         Some k \<Rightarrow> Continue k acc' | None \<Rightarrow> Done acc')"
  using assms
  by (auto simp add: fetch_page_def Let_def split: sum.splits prod.splits option.splits)



text \<open>
  Claim C7. For a page that answered with success, carries \<open>data\<close> and was mapped
  without a throw: when the continuation test finds an offset \<open>k\<close> in \<open>links.next\<close>,
  the loop goes on with \<open>k\<close>, and the URL of the next request ends in
  \<open>page[offset]=\<close> followed by the text of \<open>k\<close>, whatever the current offset; when it
  finds none, the loop ends with the entities so far. The test finds none exactly when
  \<open>links\<close> is falsy, \<open>links.next\<close> is not a string, or the marker
  \<open>page%5Boffset%5D=\<close> followed by a digit stands nowhere in the string; what it finds is
  \<open>parseInt\<close> of the digits after the leftmost such marker, and below \<open>2^53\<close> the text
  of that is the number the digits write.
\<close>

theorem next_offset_from_link:
  assumes "http (length (requests w))
             \<lparr>url = page_url cfg offset, headers = provider_headers cfg\<rparr> = Inr resp"
    and "ok resp" and "json_result resp = Inr data"
    and "truthy data" and "truthy (get data ''data'')"
    and "fetch_page js cfg http offset acc w = (w', st)" and "\<And>e. st \<noteq> Throw e"
  shows "(case next_offset js data of
            Some k \<Rightarrow>
              (\<exists>acc'. st = Continue k acc'
                 \<and> paginate js cfg http offset acc w = paginate js cfg http k acc' w'
                 \<and> requests (fst (fetch_page js cfg http k acc' w')) =
                     requests w'
                     @ [\<lparr>url = ''https://api.'' @ site_text cfg
                               @ ''/api/v2/catalog/entity?include=schema&page[limit]=100&page[offset]=''
                               @ number_text k,
                         headers = provider_headers cfg\<rparr>])
          | None \<Rightarrow>
              (\<exists>acc'. st = Done acc'
                 \<and> paginate js cfg http offset acc w = Some (w', Inr acc')))
     \<and> ((next_offset js data = None) =
          (\<not> truthy (get data ''links'')
           \<or> (\<forall>s. get (get data ''links'') ''next'' \<noteq> JStr s)
           \<or> (\<exists>s. get (get data ''links'') ''next'' = JStr s \<and> (\<forall>i. \<not> offset_at s i))))
     \<and> (\<forall>k. next_offset js data = Some k \<longrightarrow>
          (\<exists>s i. get (get data ''links'') ''next'' = JStr s \<and> offset_at s i
             \<and> (\<forall>j<i. \<not> offset_at s j) \<and> k = parseInt js (digits_at s i)
             \<and> (int (decimal_value (digits_at s i)) < 2 ^ 53 \<longrightarrow>
                  number_text k = show_nat (decimal_value (digits_at s i)))))"
proof -
  have url: "\<And>k. page_url cfg k =
      ''https://api.'' @ site_text cfg
        @ ''/api/v2/catalog/entity?include=schema&page[limit]=100&page[offset]=''
        @ number_text k"
  proof -
    fix k
    have "number_text limit = ''100''" by code_simp
    then show "page_url cfg k =
      ''https://api.'' @ site_text cfg
        @ ''/api/v2/catalog/entity?include=schema&page[limit]=100&page[offset]=''
        @ number_text k"
      by (simp add: page_url_def baseUrl_def)
  qed
  from fetch_page_step
         [where http = http and w = w and cfg = cfg and offset = offset, OF assms]
  obtain acc' where st: "st = (case next_offset js data of
                         Some k \<Rightarrow> Continue k acc' | None \<Rightarrow> Done acc')"
    by blast
  have step: "case next_offset js data of
            Some k \<Rightarrow>
              (\<exists>acc'. st = Continue k acc'
                 \<and> paginate js cfg http offset acc w = paginate js cfg http k acc' w'
                 \<and> requests (fst (fetch_page js cfg http k acc' w')) =
                     requests w'
                     @ [\<lparr>url = ''https://api.'' @ site_text cfg
                               @ ''/api/v2/catalog/entity?include=schema&page[limit]=100&page[offset]=''
                               @ number_text k,
                         headers = provider_headers cfg\<rparr>])
          | None \<Rightarrow>
              (\<exists>acc'. st = Done acc'
                 \<and> paginate js cfg http offset acc w = Some (w', Inr acc'))"
  proof (cases "next_offset js data")
    case None
    with st have "st = Done acc'" by simp
    with assms(6) None show ?thesis by (auto intro: paginate_Done)
  next
    case (Some k)
    with st have st': "st = Continue k acc'" by simp
    have "requests (fst (fetch_page js cfg http k acc' w')) =
            requests w' @ [\<lparr>url = page_url cfg k, headers = provider_headers cfg\<rparr>]"
      by (rule fetch_page_world(2)
            [of js cfg http k acc' w' _ "snd (fetch_page js cfg http k acc' w')"]) simp
    then have "requests (fst (fetch_page js cfg http k acc' w')) =
                     requests w'
                     @ [\<lparr>url = ''https://api.'' @ site_text cfg
                               @ ''/api/v2/catalog/entity?include=schema&page[limit]=100&page[offset]=''
                               @ number_text k,
                         headers = provider_headers cfg\<rparr>]"
      by (simp only: url)
    with st' assms(6) Some paginate_Continue [of js cfg http offset acc w w' k acc']
    show ?thesis
      by (simp del: append.simps list.simps)
  qed
  have none: "(next_offset js data = None) =
          (\<not> truthy (get data ''links'')
           \<or> (\<forall>s. get (get data ''links'') ''next'' \<noteq> JStr s)
           \<or> (\<exists>s. get (get data ''links'') ''next'' = JStr s \<and> (\<forall>i. \<not> offset_at s i)))"
    by (cases "get (get data ''links'') ''next''")
       (simp_all add: next_offset_alt match_offset_None)
  have some: "\<forall>k. next_offset js data = Some k \<longrightarrow>
          (\<exists>s i. get (get data ''links'') ''next'' = JStr s \<and> offset_at s i
             \<and> (\<forall>j<i. \<not> offset_at s j) \<and> k = parseInt js (digits_at s i)
             \<and> (int (decimal_value (digits_at s i)) < 2 ^ 53 \<longrightarrow>
                  number_text k = show_nat (decimal_value (digits_at s i))))"
  proof (intro allI impI)
    fix k assume k: "next_offset js data = Some k"
    then obtain s ds where s: "get (get data ''links'') ''next'' = JStr s"
      and m: "match_offset s = Some ds" and kd: "k = parseInt js ds"
      by (auto simp add: next_offset_alt split: if_splits json.splits)
    from match_offset_Some [OF m] obtain i where
      i: "offset_at s i" "\<forall>j<i. \<not> offset_at s j" "ds = digits_at s i" "ds \<noteq> []"
      by blast
    have "int (decimal_value (digits_at s i)) < 2 ^ 53 \<longrightarrow>
            number_text k = show_nat (decimal_value (digits_at s i))"
      using parseInt_exact [of "digits_at s i" js] i(3,4) kd digits_at_digits [of s i]
      by simp
    with s i kd
    show "\<exists>s i. get (get data ''links'') ''next'' = JStr s \<and> offset_at s i
             \<and> (\<forall>j<i. \<not> offset_at s j) \<and> k = parseInt js (digits_at s i)
             \<and> (int (decimal_value (digits_at s i)) < 2 ^ 53 \<longrightarrow>
                  number_text k = show_nat (decimal_value (digits_at s i)))"
      by blast
  qed
  from step none some show ?thesis by blast
qed

text \<open>The link of the first page names offset 250; the second request is for offset 250,
  not for 100.\<close>

theorem next_offset_from_link_witness:
  "next_offset plain_runtime linked_page = Some (Number False ''250'')
   \<and> (\<exists>acc'. snd (fetch_page plain_runtime example_config two_page_http (number_of_nat 0) []
                    empty_world) = Continue (Number False ''250'') acc'
        \<and> map url (requests (fst (fetch_page plain_runtime example_config two_page_http
              (Number False ''250'') acc'
              (fst (fetch_page plain_runtime example_config two_page_http (number_of_nat 0) []
                      empty_world)))))
           = [''https://api.datadoghq.com/api/v2/catalog/entity?include=schema&page[limit]=100&page[offset]=0'',
              ''https://api.datadoghq.com/api/v2/catalog/entity?include=schema&page[limit]=100&page[offset]=250''])"
proof -
  let ?f = "fetch_page plain_runtime example_config two_page_http (number_of_nat 0) [] empty_world"
  let ?E = "the (returned (createServiceEntity plain_runtime example_config bare_service))"
  have s: "snd ?f = Continue (Number False ''250'') [?E]"
    by code_simp
  have f: "?f = (fst ?f, snd ?f)"
    by simp
  have u: "page_url example_config (number_of_nat 0) =
      ''https://api.datadoghq.com/api/v2/catalog/entity?include=schema&page[limit]=100&page[offset]=0''"
    by code_simp
  have rq: "requests (fst ?f) =
      [\<lparr>url = ''https://api.datadoghq.com/api/v2/catalog/entity?include=schema&page[limit]=100&page[offset]=0'',
        headers = provider_headers example_config\<rparr>]"
    using fetch_page_world(2) [OF f] by (simp only: u empty_world_def world.simps append_Nil)
  have n: "next_offset plain_runtime linked_page = Some (Number False ''250'')"
    by code_simp
  have h: "two_page_http (length (requests empty_world))
             \<lparr>url = page_url example_config (number_of_nat 0),
               headers = provider_headers example_config\<rparr>
           = Inr (ok_response linked_page)"
    by (simp add: two_page_http_def empty_world_def)
  have t: "truthy linked_page" "truthy (get linked_page ''data'')"
    by code_simp+
  have nt: "\<And>e. snd ?f \<noteq> Throw e"
    by (simp add: s)
  have st: "site_text example_config = ''datadoghq.com''"
    by code_simp
  from next_offset_from_link
         [where http = two_page_http and resp = "ok_response linked_page" and data = linked_page,
          OF h _ _ t f nt]
  show ?thesis
    by (auto simp add: n ok_response_def rq st)
qed

subsection \<open>The run\<close>




end
